theory Spec2Isabelle
  imports Main
begin

unbundle bit_operations_syntax

section \<open>Python values and exceptions\<close>

text \<open>
  The module \<^verbatim>\<open>DebuggerRequest.py\<close> builds the outbound requests of the remote
  debugger and writes them through a debugger client. The embedding below follows the
  module class by class.

  Python is dynamically typed. The arguments of the constructors are modelled by the
  values their documentation gives them: \<^verbatim>\<open>None\<close>, booleans, integers and the members
  of the two integer enumerations (which are integers in Python). A string is the list
  of its Unicode code points; Python has no code point above \<open>0x10FFFF\<close>.
\<close>

type_synonym pystr = "nat list"

datatype exn =
    AssertionError
  | AttributeError
  | TypeError
  | UnicodeEncodeError
  | ClientError nat

definition UINT8_SIZE :: int where
  "UINT8_SIZE = 1"

definition UINT32_SIZE :: int where
  "UINT32_SIZE = 4"

definition NO_PARAMS_REQUEST_SIZE :: int where
  "NO_PARAMS_REQUEST_SIZE = 3 * UINT32_SIZE"

datatype CmdCode = STOP | CONTINUE | THREADS | STACKTRACE | VARIABLES | STEP | EXIT_CHANNEL

fun CmdCode_value :: "CmdCode \<Rightarrow> int" where
  "CmdCode_value STOP = 1"
| "CmdCode_value CONTINUE = 2"
| "CmdCode_value THREADS = 3"
| "CmdCode_value STACKTRACE = 4"
| "CmdCode_value VARIABLES = 5"
| "CmdCode_value STEP = 6"
| "CmdCode_value EXIT_CHANNEL = 122"

datatype StepType = NONE | LINE | OUT | OVER

fun StepType_value :: "StepType \<Rightarrow> int" where
  "StepType_value NONE = 0"
| "StepType_value LINE = 1"
| "StepType_value OUT = 2"
| "StepType_value OVER = 3"

definition GET_CHILD_KEYS :: int where
  "GET_CHILD_KEYS = 1"

datatype pyval =
    PNone
  | PBool bool
  | PInt int
  | PCmdCode CmdCode
  | PStepType StepType

text \<open>\<^verbatim>\<open>int(v)\<close>: the integer value of a boolean, an integer or an enumeration member;
  \<^verbatim>\<open>int(None)\<close> raises.\<close>

fun py_int :: "pyval \<Rightarrow> exn + int" where
  "py_int PNone = Inl TypeError"
| "py_int (PBool b) = Inr (if b then 1 else 0)"
| "py_int (PInt n) = Inr n"
| "py_int (PCmdCode c) = Inr (CmdCode_value c)"
| "py_int (PStepType t) = Inr (StepType_value t)"

text \<open>\<^verbatim>\<open>v == True\<close> and \<^verbatim>\<open>v == False\<close>: numeric comparison; \<^verbatim>\<open>None\<close> equals neither.\<close>

definition py_eq_bool :: "pyval \<Rightarrow> bool \<Rightarrow> bool" where
  "py_eq_bool v b = (py_int v = Inr (if b then 1 else 0))"

text \<open>The truth value of \<^verbatim>\<open>v\<close> in a condition.\<close>

definition py_truth :: "pyval \<Rightarrow> bool" where
  "py_truth v = (case py_int v of Inl _ \<Rightarrow> False | Inr n \<Rightarrow> n \<noteq> 0)"

subsection \<open>UTF-8\<close>

text \<open>\<^verbatim>\<open>elem.encode('utf-8')\<close>: one to four bytes for each code point; a surrogate
  (\<open>0xD800\<close> to \<open>0xDFFF\<close>) cannot be encoded and raises.\<close>

definition utf8_char :: "nat \<Rightarrow> exn + nat list" where
  "utf8_char c =
     (if c < 0x80 then Inr [c]
      else if c < 0x800 then Inr [0xC0 + c div 64, 0x80 + c mod 64]
      else if 0xD800 \<le> c \<and> c \<le> 0xDFFF then Inl UnicodeEncodeError
      else if c < 0x10000 then
        Inr [0xE0 + c div 4096, 0x80 + (c div 64) mod 64, 0x80 + c mod 64]
      else
        Inr [0xF0 + c div 262144, 0x80 + (c div 4096) mod 64,
             0x80 + (c div 64) mod 64, 0x80 + c mod 64])"

fun encode_utf8 :: "pystr \<Rightarrow> exn + nat list" where
  "encode_utf8 [] = Inr []"
| "encode_utf8 (c # cs) =
     (case utf8_char c of
        Inl e \<Rightarrow> Inl e
      | Inr bs \<Rightarrow> (case encode_utf8 cs of Inl e \<Rightarrow> Inl e | Inr r \<Rightarrow> Inr (bs @ r)))"

section \<open>The request objects\<close>

text \<open>
  The attributes every request has are the fields of a record; the attributes a subclass
  adds are the arguments of its constructor in \<open>body\<close>, which also tells the class of
  the object, and with it the \<^verbatim>\<open>send\<close> method that runs.
\<close>

datatype body =
    NoParams
  | Stacktrace (request_size: int) (thread_index: pyval)
  | Step (thread_index: pyval) (step_type: StepType) (request_size: int)
  | Variables (get_child_keys: pyval) (thread_index: pyval) (stack_index: pyval)
      (variable_path: "pystr list") (request_size: int)

record request =
  debug :: int
  cmd_code :: CmdCode
  request_id :: pyval
  caller_data :: pyval
  body :: body

text \<open>
  The constructor of the base class reads \<^verbatim>\<open>sys.modules['__main__'].gMain.gDebugLevel\<close>.
  The main module is not part of this file: it is a parameter, in which \<^verbatim>\<open>gMain\<close> and
  its attribute \<^verbatim>\<open>gDebugLevel\<close> (an integer) may each be missing. The constructor
  also keeps \<^verbatim>\<open>gMain\<close> in a global variable of the module, which it reads in the next
  statement and nothing reads after that; the global is not modelled.

  An \<^verbatim>\<open>assert\<close> statement raises \<^verbatim>\<open>AssertionError\<close> when its condition fails, as it
  does when the interpreter runs without optimisation.
\<close>

record gmain =
  gDebugLevel :: "int option"

record main_module =
  gMain :: "gmain option"

definition DebuggerRequest_init :: "main_module \<Rightarrow> CmdCode \<Rightarrow> pyval \<Rightarrow> exn + request" where
  "DebuggerRequest_init main cmdCode cdata =
     (case gMain main of
        None \<Rightarrow> Inl AttributeError
      | Some g \<Rightarrow>
          (case gDebugLevel g of
             None \<Rightarrow> Inl AttributeError
           | Some level \<Rightarrow>
               Inr \<lparr>debug = max level 0, cmd_code = cmdCode, request_id = PNone,
                    caller_data = cdata, body = NoParams\<rparr>))"

definition NoParams_init :: "main_module \<Rightarrow> CmdCode \<Rightarrow> pyval \<Rightarrow> exn + request" where
  "NoParams_init main cmdCode cdata = DebuggerRequest_init main cmdCode cdata"

definition Continue_init :: "main_module \<Rightarrow> exn + request" where
  "Continue_init main = NoParams_init main CONTINUE (PBool False)"

definition ExitChannel_init :: "main_module \<Rightarrow> exn + request" where
  "ExitChannel_init main = NoParams_init main EXIT_CHANNEL (PBool False)"

definition Stacktrace_init :: "main_module \<Rightarrow> pyval \<Rightarrow> pyval \<Rightarrow> exn + request" where
  "Stacktrace_init main thread_idx cdata =
     (case DebuggerRequest_init main STACKTRACE cdata of
        Inl e \<Rightarrow> Inl e
      | Inr self \<Rightarrow>
          Inr (self\<lparr>body := Stacktrace (NO_PARAMS_REQUEST_SIZE + UINT32_SIZE) thread_idx\<rparr>))"

text \<open>\<^verbatim>\<open>assert isinstance(step_type, StepType)\<close> is the first statement of the
  constructor of a step request: it runs before the constructor of the base class.\<close>

definition Step_init :: "main_module \<Rightarrow> pyval \<Rightarrow> pyval \<Rightarrow> exn + request" where
  "Step_init main thread_idx stype =
     (case stype of
        PStepType t \<Rightarrow>
          (case NoParams_init main STEP PNone of
             Inl e \<Rightarrow> Inl e
           | Inr self \<Rightarrow>
               Inr (self\<lparr>body := Step thread_idx t
                      (NO_PARAMS_REQUEST_SIZE + UINT32_SIZE + UINT8_SIZE)\<rparr>))
      | _ \<Rightarrow> Inl AssertionError)"

definition Stop_init :: "main_module \<Rightarrow> exn + request" where
  "Stop_init main = NoParams_init main STOP PNone"

definition Threads_init :: "main_module \<Rightarrow> pyval \<Rightarrow> exn + request" where
  "Threads_init main cdata = NoParams_init main THREADS cdata"

text \<open>\<^verbatim>\<open>(v != None) and (int(v) >= 0)\<close>; the right operand is evaluated only when the
  left one holds.\<close>

definition index_ok :: "pyval \<Rightarrow> exn + bool" where
  "index_ok v =
     (if v = PNone then Inr False
      else (case py_int v of Inl e \<Rightarrow> Inl e | Inr n \<Rightarrow> Inr (n \<ge> 0)))"

text \<open>The loop that adds the encoded length of each path element, and one for its
  trailing zero, to the size.\<close>

fun add_path_sizes :: "pystr list \<Rightarrow> int \<Rightarrow> exn + int" where
  "add_path_sizes [] sz = Inr sz"
| "add_path_sizes (elem # rest) sz =
     (case encode_utf8 elem of
        Inl e \<Rightarrow> Inl e
      | Inr bs \<Rightarrow> add_path_sizes rest (sz + (int (length bs) + 1)))"

text \<open>The path argument is \<^verbatim>\<open>None\<close> or a list of strings; \<^verbatim>\<open>len\<close> of a list is never
  negative, and \<^verbatim>\<open>not variable_path\<close> holds for \<^verbatim>\<open>None\<close> and for the empty list.\<close>

definition Variables_init ::
  "main_module \<Rightarrow> pyval \<Rightarrow> pyval \<Rightarrow> pystr list option \<Rightarrow> pyval \<Rightarrow> pyval \<Rightarrow> exn + request" where
  "Variables_init main thread_idx stack_idx var_path child_keys cdata =
     (case DebuggerRequest_init main VARIABLES cdata of
        Inl e \<Rightarrow> Inl e
      | Inr self \<Rightarrow>
          (case index_ok thread_idx of
             Inl e \<Rightarrow> Inl e
           | Inr False \<Rightarrow> Inl AssertionError
           | Inr True \<Rightarrow>
          (case index_ok stack_idx of
             Inl e \<Rightarrow> Inl e
           | Inr False \<Rightarrow> Inl AssertionError
           | Inr True \<Rightarrow>
          if \<not> (py_eq_bool child_keys True \<or> py_eq_bool child_keys False)
          then Inl AssertionError
          else if \<not> (case var_path of None \<Rightarrow> True | Some p \<Rightarrow> int (length p) \<ge> 0)
          then Inl AssertionError
          else
            (let path = (case var_path of None \<Rightarrow> [] | Some p \<Rightarrow> if p = [] then [] else p)
             in case add_path_sizes path
                       (NO_PARAMS_REQUEST_SIZE + UINT8_SIZE + 3 * UINT32_SIZE) of
                  Inl e \<Rightarrow> Inl e
                | Inr sz \<Rightarrow>
                    Inr (self\<lparr>body := Variables child_keys thread_idx stack_idx path sz\<rparr>)))))"

text \<open>The seven public classes, as the calls a caller can make.\<close>

datatype new_request =
    New_Continue
  | New_ExitChannel
  | New_Stacktrace pyval pyval
  | New_Step pyval pyval
  | New_Stop
  | New_Threads pyval
  | New_Variables pyval pyval "pystr list option" pyval pyval

fun construct :: "main_module \<Rightarrow> new_request \<Rightarrow> exn + request" where
  "construct main New_Continue = Continue_init main"
| "construct main New_ExitChannel = ExitChannel_init main"
| "construct main (New_Stacktrace thread_idx cdata) = Stacktrace_init main thread_idx cdata"
| "construct main (New_Step thread_idx stype) = Step_init main thread_idx stype"
| "construct main New_Stop = Stop_init main"
| "construct main (New_Threads cdata) = Threads_init main cdata"
| "construct main (New_Variables thread_idx stack_idx var_path child_keys cdata) =
     Variables_init main thread_idx stack_idx var_path child_keys cdata"

section \<open>The debugger client\<close>

text \<open>
  The debugger client that \<^verbatim>\<open>send\<close> writes through is not part of this module. It is
  a parameter: four operations on a client state of any type \<open>'c\<close>, each of which
  returns a value or raises. The three write operations return the number of bytes
  they have written.
\<close>

record 'c debugger_client =
  get_next_request_id :: "'c \<Rightarrow> (exn + int) \<times> 'c"
  send_uint :: "pyval \<Rightarrow> 'c \<Rightarrow> (exn + int) \<times> 'c"
  send_byte :: "pyval \<Rightarrow> 'c \<Rightarrow> (exn + int) \<times> 'c"
  send_str :: "pystr \<Rightarrow> 'c \<Rightarrow> (exn + int) \<times> 'c"

text \<open>
  A method runs on the request \<^verbatim>\<open>self\<close> and the state of the client; it returns a value
  or raises, and leaves both as they are at that point.
\<close>

type_synonym ('a, 'c) action = "request \<times> 'c \<Rightarrow> (exn + 'a) \<times> request \<times> 'c"

definition ret :: "'a \<Rightarrow> ('a, 'c) action" where
  "ret x = (\<lambda>s. (Inr x, s))"

definition raise :: "exn \<Rightarrow> ('a, 'c) action" where
  "raise e = (\<lambda>s. (Inl e, s))"

definition bnd :: "('a, 'c) action \<Rightarrow> ('a \<Rightarrow> ('b, 'c) action) \<Rightarrow> ('b, 'c) action" where
  "bnd m k = (\<lambda>s. case m s of (Inl e, s') \<Rightarrow> (Inl e, s') | (Inr x, s') \<Rightarrow> k x s')"

definition self :: "(request, 'c) action" where
  "self = (\<lambda>(r, c). (Inr r, r, c))"

definition set_request_id :: "pyval \<Rightarrow> (unit, 'c) action" where
  "set_request_id v = (\<lambda>(r, c). (Inr (), r\<lparr>request_id := v\<rparr>, c))"

definition client :: "('c \<Rightarrow> (exn + 'a) \<times> 'c) \<Rightarrow> ('a, 'c) action" where
  "client f = (\<lambda>(r, c). case f c of (x, c') \<Rightarrow> (x, r, c'))"

section \<open>Sending\<close>

text \<open>The debug output of the methods goes to the standard output, which is not part of
  the model: it changes neither the request nor the client.\<close>

definition verify_num_written :: "int \<Rightarrow> int \<Rightarrow> (int, 'c) action" where
  "verify_num_written expected actual =
     (if expected = actual then ret actual else raise AssertionError)"

definition send_base_fields :: "'c debugger_client \<Rightarrow> int \<Rightarrow> (int, 'c) action" where
  "send_base_fields debugger packet_size =
     bnd (client (get_next_request_id debugger)) (\<lambda>rid.
     bnd (set_request_id (PInt rid)) (\<lambda>_.
     bnd (client (send_uint debugger (PInt packet_size))) (\<lambda>n1.
     bnd self (\<lambda>s1.
     bnd (client (send_uint debugger (request_id s1))) (\<lambda>n2.
     bnd self (\<lambda>s2.
     bnd (client (send_uint debugger (PCmdCode (cmd_code s2)))) (\<lambda>n3.
     bnd (verify_num_written NO_PARAMS_REQUEST_SIZE (0 + n1 + n2 + n3)) (\<lambda>_.
     ret (0 + n1 + n2 + n3)))))))))"

definition NoParams_send :: "'c debugger_client \<Rightarrow> (pyval, 'c) action" where
  "NoParams_send dc =
     bnd (send_base_fields dc NO_PARAMS_REQUEST_SIZE) (\<lambda>n. ret (PInt n))"

definition Stacktrace_send :: "'c debugger_client \<Rightarrow> (pyval, 'c) action" where
  "Stacktrace_send dc =
     bnd self (\<lambda>s0.
     bnd (send_base_fields dc (request_size (body s0))) (\<lambda>_.
     bnd self (\<lambda>s1.
     bnd (client (send_uint dc (thread_index (body s1)))) (\<lambda>_.
     ret PNone))))"

definition Step_send :: "'c debugger_client \<Rightarrow> (pyval, 'c) action" where
  "Step_send dc =
     bnd self (\<lambda>s0.
     bnd (send_base_fields dc (request_size (body s0))) (\<lambda>_.
     bnd self (\<lambda>s1.
     bnd (client (send_uint dc (thread_index (body s1)))) (\<lambda>_.
     bnd self (\<lambda>s2.
     bnd (client (send_byte dc (PInt (StepType_value (step_type (body s2)))))) (\<lambda>_.
     ret PNone))))))"

fun send_path :: "'c debugger_client \<Rightarrow> pystr list \<Rightarrow> (unit, 'c) action" where
  "send_path dc [] = ret ()"
| "send_path dc (elem # rest) =
     bnd (client (send_str dc elem)) (\<lambda>_. send_path dc rest)"

definition Variables_send :: "'c debugger_client \<Rightarrow> (pyval, 'c) action" where
  "Variables_send dc =
     bnd self (\<lambda>s0.
     bnd (send_base_fields dc (request_size (body s0))) (\<lambda>_.
     bnd self (\<lambda>s1.
     bnd (client (send_byte dc
            (PInt (if py_truth (get_child_keys (body s1)) then 0 OR GET_CHILD_KEYS else 0)))) (\<lambda>_.
     bnd self (\<lambda>s2.
     bnd (client (send_uint dc (thread_index (body s2)))) (\<lambda>_.
     bnd self (\<lambda>s3.
     bnd (client (send_uint dc (stack_index (body s3)))) (\<lambda>_.
     bnd self (\<lambda>s4.
     bnd (client (send_uint dc (PInt (int (length (variable_path (body s4))))))) (\<lambda>_.
     bnd self (\<lambda>s5.
     bnd (send_path dc (variable_path (body s5))) (\<lambda>_.
     ret PNone))))))))))))"

text \<open>\<^verbatim>\<open>request.send(debugger_client)\<close>: the method of the class of the request.\<close>

definition send :: "'c debugger_client \<Rightarrow> (pyval, 'c) action" where
  "send dc = (\<lambda>(r, c).
     case body r of
       NoParams \<Rightarrow> NoParams_send dc (r, c)
     | Stacktrace _ _ \<Rightarrow> Stacktrace_send dc (r, c)
     | Step _ _ _ \<Rightarrow> Step_send dc (r, c)
     | Variables _ _ _ _ _ \<Rightarrow> Variables_send dc (r, c))"

text \<open>
  A caller that sends the requests of a list one after the other through one client,
  whether a send returns or raises; it keeps each request as the send has left it.
\<close>

fun send_all :: "'c debugger_client \<Rightarrow> request list \<Rightarrow> 'c \<Rightarrow> request list \<times> 'c" where
  "send_all dc [] c = ([], c)"
| "send_all dc (r # rs) c =
     (case send dc (r, c) of
        (_, r', c') \<Rightarrow> (case send_all dc rs c' of (rs', c'') \<Rightarrow> (r' # rs', c'')))"

subsection \<open>Observing a client\<close>

text \<open>
  To state what a send does to the client, the client is wrapped: the wrapped client
  behaves as the client does and records each call with what the call has returned.
\<close>

datatype call =
    Get_next_request_id
  | Send_uint pyval
  | Send_byte pyval
  | Send_str pystr

type_synonym event = "call \<times> (exn + int)"

definition observe :: "call \<Rightarrow> ('c \<Rightarrow> (exn + int) \<times> 'c) \<Rightarrow> 'c \<times> event list \<Rightarrow> (exn + int) \<times> 'c \<times> event list" where
  "observe cl f = (\<lambda>(c, tr). case f c of (x, c') \<Rightarrow> (x, c', tr @ [(cl, x)]))"

definition traced :: "'c debugger_client \<Rightarrow> ('c \<times> event list) debugger_client" where
  "traced dc =
     \<lparr>get_next_request_id = observe Get_next_request_id (get_next_request_id dc),
      send_uint = (\<lambda>v. observe (Send_uint v) (send_uint dc v)),
      send_byte = (\<lambda>v. observe (Send_byte v) (send_byte dc v)),
      send_str = (\<lambda>s. observe (Send_str s) (send_str dc s))\<rparr>"

text \<open>The number of bytes a call has written, as the client has returned it.\<close>

fun written :: "event \<Rightarrow> int" where
  "written (Get_next_request_id, _) = 0"
| "written (_, Inl _) = 0"
| "written (_, Inr n) = n"

definition bytes_written :: "event list \<Rightarrow> int" where
  "bytes_written tr = sum_list (map written tr)"

text \<open>The contract of the client: a write of an unsigned integer returns 4, a write of
  a byte 1, a write of a string the length of its UTF-8 encoding and 1; the identifier
  source returns an identifier.\<close>

fun contractual :: "event \<Rightarrow> bool" where
  "contractual (Get_next_request_id, x) = (case x of Inl _ \<Rightarrow> False | Inr _ \<Rightarrow> True)"
| "contractual (Send_uint _, x) = (x = Inr UINT32_SIZE)"
| "contractual (Send_byte _, x) = (x = Inr UINT8_SIZE)"
| "contractual (Send_str s, x) =
     (case encode_utf8 s of
        Inl _ \<Rightarrow> False
      | Inr bs \<Rightarrow> x = Inr (int (length bs) + 1))"


text \<open>The size a request declares: \<^verbatim>\<open>NO_PARAMS_REQUEST_SIZE\<close> for the classes without
  parameters, the attribute \<^verbatim>\<open>_request_size\<close> for the others.\<close>

definition declared_size :: "request \<Rightarrow> int" where
  "declared_size r = (case body r of NoParams \<Rightarrow> NO_PARAMS_REQUEST_SIZE | b \<Rightarrow> request_size b)"

text \<open>The calls that write the payload of a request, in the order of the wire layout.\<close>

fun payload_calls :: "body \<Rightarrow> call list" where
  "payload_calls NoParams = []"
| "payload_calls (Stacktrace sz ti) = [Send_uint ti]"
| "payload_calls (Step ti st sz) = [Send_uint ti, Send_byte (PInt (StepType_value st))]"
| "payload_calls (Variables ck ti si path sz) =
     [Send_byte (PInt (if py_truth ck then 1 else 0)), Send_uint ti, Send_uint si,
      Send_uint (PInt (int (length path)))] @ map Send_str path"


text \<open>A method that changes no attribute of the request but its identifier.\<close>

definition frame :: "('a, 'c) action \<Rightarrow> bool" where
  "frame m = (\<forall>r c x r' c'. m (r, c) = (x, r', c') \<longrightarrow> r' = r\<lparr>request_id := request_id r'\<rparr>)"

subsection \<open>The specification's notions\<close>

text \<open>The length of the UTF-8 encoding of a string as the encoding defines it: one byte
  for a code point below \<open>0x80\<close>, two below \<open>0x800\<close>, three below \<open>0x10000\<close>, four
  above.\<close>

definition utf8_width :: "nat \<Rightarrow> nat" where
  "utf8_width c = (if c < 0x80 then 1 else if c < 0x800 then 2 else if c < 0x10000 then 3 else 4)"

definition utf8_byte_length :: "pystr \<Rightarrow> nat" where
  "utf8_byte_length s = sum_list (map utf8_width s)"

text \<open>The main module has the object \<^verbatim>\<open>gMain\<close>, and the object has the attribute
  \<^verbatim>\<open>gDebugLevel\<close>.\<close>

definition has_gDebugLevel :: "main_module \<Rightarrow> bool" where
  "has_gDebugLevel main =
     (case gMain main of None \<Rightarrow> False | Some g \<Rightarrow> gDebugLevel g \<noteq> None)"

text \<open>
  An identifier source that returns a fresh, increasing value on each call: \<open>mark\<close>
  gives, in each state of the client, the largest identifier handed out so far. The
  source never raises, returns a value above the mark and moves the mark up to it at
  least; no write moves the mark down.
\<close>

definition id_source_increasing :: "'c debugger_client \<Rightarrow> ('c \<Rightarrow> int) \<Rightarrow> bool" where
  "id_source_increasing dc mark =
     ((\<forall>c. case get_next_request_id dc c of
             (Inl _, _) \<Rightarrow> False
           | (Inr n, c') \<Rightarrow> mark c < n \<and> n \<le> mark c') \<and>
      (\<forall>v c. mark c \<le> mark (snd (send_uint dc v c))) \<and>
      (\<forall>v c. mark c \<le> mark (snd (send_byte dc v c))) \<and>
      (\<forall>s c. mark c \<le> mark (snd (send_str dc s c))))"

text \<open>A method that leaves the request as it is and does not move the mark down.\<close>

definition steady :: "('c \<Rightarrow> int) \<Rightarrow> ('a, 'c) action \<Rightarrow> bool" where
  "steady mark m = (\<forall>r c x r' c'. m (r, c) = (x, r', c') \<longrightarrow> r' = r \<and> mark c \<le> mark c')"

text \<open>A method that leaves the request as it is and only adds to the record of the
  calls.\<close>

definition grows :: "('a, 'c \<times> event list) action \<Rightarrow> bool" where
  "grows m = (\<forall>r c tr. \<exists>x c' evs. m (r, c, tr) = (x, r, c', tr @ evs))"

subsection \<open>Examples\<close>

text \<open>Modelled from the spec: the debugger client is not in this module. This one keeps
  the contract of section 6 of the specification: its state is the next identifier,
  which it returns and increases; a write returns the number of bytes of the value.\<close>

definition counting_client :: "int debugger_client" where
  "counting_client =
     \<lparr>get_next_request_id = (\<lambda>n. (Inr n, n + 1)),
      send_uint = (\<lambda>v n. (Inr UINT32_SIZE, n)),
      send_byte = (\<lambda>v n. (Inr UINT8_SIZE, n)),
      send_str = (\<lambda>s n.
        (case encode_utf8 s of Inl e \<Rightarrow> Inl e | Inr bs \<Rightarrow> Inr (int (length bs) + 1), n))\<rparr>"

definition example_main :: main_module where
  "example_main = \<lparr>gMain = Some \<lparr>gDebugLevel = Some 2\<rparr>\<rparr>"

text \<open>A path of three elements: one ASCII letter; a letter of two bytes and a sign of
  three bytes; a code point of four bytes.\<close>

definition example_path :: "pystr list" where
  "example_path = [[0x61], [0xE9, 0x20AC], [0x1F600]]"

definition example_variables :: request where
  "example_variables =
     \<lparr>debug = 2, cmd_code = VARIABLES, request_id = PNone, caller_data = PNone,
      body = Variables (PBool True) (PInt 3) (PInt 0) example_path 38\<rparr>"

definition example_trace :: "event list" where
  "example_trace =
     [(Get_next_request_id, Inr 7), (Send_uint (PInt 38), Inr 4), (Send_uint (PInt 7), Inr 4),
      (Send_uint (PCmdCode VARIABLES), Inr 4), (Send_byte (PInt 1), Inr 1),
      (Send_uint (PInt 3), Inr 4), (Send_uint (PInt 0), Inr 4), (Send_uint (PInt 3), Inr 4),
      (Send_str [0x61], Inr 2), (Send_str [0xE9, 0x20AC], Inr 6), (Send_str [0x1F600], Inr 5)]"

text \<open>A client that breaks the contract: its write of an unsigned integer returns 3.\<close>

definition short_client :: "int debugger_client" where
  "short_client = counting_client\<lparr>send_uint := (\<lambda>v n. (Inr 3, n))\<rparr>"

text \<open>The request for the variables of frame 0 of thread 0, with the empty path.\<close>

definition example_empty :: request where
  "example_empty =
     \<lparr>debug = 2, cmd_code = VARIABLES, request_id = PNone, caller_data = PNone,
      body = Variables (PBool False) (PInt 0) (PInt 0) [] 25\<rparr>"

text \<open>Two requests for a stack trace, to be sent one after the other.\<close>

definition example_stacktraces :: "request list" where
  "example_stacktraces =
     [\<lparr>debug = 2, cmd_code = STACKTRACE, request_id = PNone, caller_data = PNone,
       body = Stacktrace 16 (PInt 0)\<rparr>,
      \<lparr>debug = 2, cmd_code = STACKTRACE, request_id = PNone, caller_data = PNone,
       body = Stacktrace 16 (PInt 1)\<rparr>]"

section \<open>Running a method\<close>

lemma bnd_cases:
  assumes "bnd m k s = (x, s')"
  obtains (raised) e where "m s = (Inl e, s')" "x = Inl e"
        | (returned) y s1 where "m s = (Inr y, s1)" "k y s1 = (x, s')"
  using assms by (auto simp: bnd_def split: prod.splits sum.splits)

lemma self_run: "self (r, c) = (Inr r, r, c)"
  by (simp add: self_def)

lemma ret_run: "ret x s = (Inr x, s)"
  by (simp add: ret_def)

lemma raise_run: "raise e s = (Inl e, s)"
  by (simp add: raise_def)

lemma set_request_id_run: "set_request_id v (r, c) = (Inr (), r\<lparr>request_id := v\<rparr>, c)"
  by (simp add: set_request_id_def)

lemma client_run: "client f (r, c) = (fst (f c), r, snd (f c))"
  by (simp add: client_def split: prod.splits)

lemma client_traced_next:
  "client (get_next_request_id (traced dc)) (r, c, tr) =
     (case get_next_request_id dc c of (x, c') \<Rightarrow> (x, r, c', tr @ [(Get_next_request_id, x)]))"
  by (simp add: client_def traced_def observe_def split: prod.splits)

lemma client_traced_uint:
  "client (send_uint (traced dc) v) (r, c, tr) =
     (case send_uint dc v c of (x, c') \<Rightarrow> (x, r, c', tr @ [(Send_uint v, x)]))"
  by (simp add: client_def traced_def observe_def split: prod.splits)

lemma client_traced_byte:
  "client (send_byte (traced dc) v) (r, c, tr) =
     (case send_byte dc v c of (x, c') \<Rightarrow> (x, r, c', tr @ [(Send_byte v, x)]))"
  by (simp add: client_def traced_def observe_def split: prod.splits)

lemma client_traced_str:
  "client (send_str (traced dc) v) (r, c, tr) =
     (case send_str dc v c of (x, c') \<Rightarrow> (x, r, c', tr @ [(Send_str v, x)]))"
  by (simp add: client_def traced_def observe_def split: prod.splits)

lemmas client_traced = client_traced_next client_traced_uint client_traced_byte client_traced_str

lemmas run_simps =
  send_def NoParams_send_def Stacktrace_send_def Step_send_def Variables_send_def
  send_base_fields_def verify_num_written_def bnd_def ret_def raise_def self_def
  set_request_id_def client_def traced_def observe_def counting_client_def
  NO_PARAMS_REQUEST_SIZE_def UINT32_SIZE_def UINT8_SIZE_def GET_CHILD_KEYS_def
  utf8_char_def py_truth_def

lemmas init_simps =
  Variables_init_def DebuggerRequest_init_def NoParams_init_def Stacktrace_init_def
  Step_init_def Stop_init_def Threads_init_def Continue_init_def ExitChannel_init_def
  index_ok_def py_eq_bool_def example_main_def example_path_def
  NO_PARAMS_REQUEST_SIZE_def UINT32_SIZE_def UINT8_SIZE_def utf8_char_def

section \<open>The examples, evaluated\<close>

lemma example_variables_construct:
  "construct example_main (New_Variables (PInt 3) (PInt 0) (Some example_path) (PBool True) PNone)
     = Inr example_variables"
  by (simp add: init_simps example_variables_def)

lemma example_variables_send:
  "send (traced counting_client) (example_variables, 7, []) =
     (Inr PNone, example_variables\<lparr>request_id := PInt 7\<rparr>, 8, example_trace)"
  by (simp add: run_simps example_variables_def example_path_def example_trace_def)



section \<open>The constructors\<close>


lemma add_path_sizes_Inr:
  "add_path_sizes p sz = Inr n \<Longrightarrow>
     \<exists>bss. map encode_utf8 p = map Inr bss \<and>
           n = sz + sum_list (map (\<lambda>bs. int (length bs) + 1) bss)"
proof (induction p arbitrary: sz)
  case Nil
  then show ?case by simp
next
  case (Cons elem rest)
  then obtain bs where e: "encode_utf8 elem = Inr bs"
    and r: "add_path_sizes rest (sz + (int (length bs) + 1)) = Inr n"
    by (auto split: sum.splits)
  from Cons.IH [OF r] obtain bss where
    "map encode_utf8 rest = map Inr bss"
    "n = sz + (int (length bs) + 1) + sum_list (map (\<lambda>bs. int (length bs) + 1) bss)"
    by blast
  with e have "map encode_utf8 (elem # rest) = map Inr (bs # bss) \<and>
     n = sz + sum_list (map (\<lambda>bs. int (length bs) + 1) (bs # bss))"
    by simp
  then show ?case by blast
qed


lemma Variables_init_Inr:
  assumes "Variables_init main ti si vp ck cd = Inr r"
  shows "\<exists>b sz. DebuggerRequest_init main VARIABLES cd = Inr b \<and>
           index_ok ti = Inr True \<and> index_ok si = Inr True \<and>
           (py_eq_bool ck True \<or> py_eq_bool ck False) \<and>
           add_path_sizes (case vp of None \<Rightarrow> [] | Some p \<Rightarrow> p) 25 = Inr sz \<and>
           r = b\<lparr>body := Variables ck ti si (case vp of None \<Rightarrow> [] | Some p \<Rightarrow> p) sz\<rparr>"
  using assms
  by (auto simp: Variables_init_def NO_PARAMS_REQUEST_SIZE_def UINT32_SIZE_def UINT8_SIZE_def
        Let_def split: sum.splits bool.splits if_splits option.splits)


text \<open>
  Claim C2. A request for variables that has been constructed with a path that is
  \<^verbatim>\<open>None\<close> or a list of strings declares the size 25 and, for each element of the
  path, the length of its UTF-8 encoding and 1. With \<^verbatim>\<open>None\<close> or the empty list the
  size is 25. Nothing is written: the constructor does not have the client.
\<close>

theorem Variables_declared_size:
  assumes "construct main (New_Variables ti si vp ck cd) = Inr r"
  shows "\<exists>bss. map encode_utf8 (case vp of None \<Rightarrow> [] | Some p \<Rightarrow> p) = map Inr bss \<and>
           request_size (body r) = 25 + sum_list (map (\<lambda>bs. int (length bs) + 1) bss) \<and>
           (vp = None \<or> vp = Some [] \<longrightarrow> request_size (body r) = 25)"
proof -
  from assms have "Variables_init main ti si vp ck cd = Inr r" by simp
  from Variables_init_Inr [OF this] obtain b sz where
    sz: "add_path_sizes (case vp of None \<Rightarrow> [] | Some p \<Rightarrow> p) 25 = Inr sz"
    and r: "r = b\<lparr>body := Variables ck ti si (case vp of None \<Rightarrow> [] | Some p \<Rightarrow> p) sz\<rparr>"
    by blast
  from add_path_sizes_Inr [OF sz] obtain bss where
    b: "map encode_utf8 (case vp of None \<Rightarrow> [] | Some p \<Rightarrow> p) = map Inr bss"
    "sz = 25 + sum_list (map (\<lambda>bs. int (length bs) + 1) bss)"
    by blast
  have "vp = None \<or> vp = Some [] \<longrightarrow> request_size (body r) = 25"
    using sz r by auto
  with b r show ?thesis by auto
qed

theorem Variables_declared_size_witness:
  "construct example_main
     (New_Variables (PInt 3) (PInt 0) (Some example_path) (PBool True) PNone)
     = Inr example_variables \<and>
   map encode_utf8 example_path =
     map Inr [[0x61], [0xC3, 0xA9, 0xE2, 0x82, 0xAC], [0xF0, 0x9F, 0x98, 0x80]] \<and>
   request_size (body example_variables) = 25 + (2 + 6 + 5)"
  using Variables_declared_size [OF example_variables_construct] example_variables_construct
  by (simp add: example_path_def example_variables_def utf8_char_def)

section \<open>What a send does to the request\<close>

lemma frame_ret: "frame (ret x)"
  by (simp add: frame_def ret_run)

lemma frame_raise: "frame (raise e)"
  by (simp add: frame_def raise_run)

lemma frame_self: "frame self"
  by (simp add: frame_def self_run)

lemma frame_set_request_id: "frame (set_request_id v)"
  by (simp add: frame_def set_request_id_run)

lemma frame_client: "frame (client f)"
  by (simp add: frame_def client_run)

lemma frame_bnd:
  assumes "frame m" and "\<And>y. frame (k y)"
  shows "frame (bnd m k)"
  unfolding frame_def
proof (intro allI impI)
  fix r c x r' c'
  assume run: "bnd m k (r, c) = (x, r', c')"
  then show "r' = r\<lparr>request_id := request_id r'\<rparr>"
  proof (cases rule: bnd_cases)
    case (raised e)
    with assms(1) show ?thesis unfolding frame_def by blast
  next
    case (returned y s1)
    obtain r1 c1 where s1: "s1 = (r1, c1)" by (cases s1)
    from returned(1) s1 assms(1) have a: "r1 = r\<lparr>request_id := request_id r1\<rparr>"
      unfolding frame_def by blast
    from returned(2) s1 assms(2) [of y] have b: "r' = r1\<lparr>request_id := request_id r'\<rparr>"
      unfolding frame_def by blast
    from a b show ?thesis
      by (metis request.surjective request.update_convs(3) request.select_convs)
  qed
qed

lemma frame_verify: "frame (verify_num_written a b)"
  by (simp add: verify_num_written_def frame_ret frame_raise)

lemma frame_send_base_fields: "frame (send_base_fields dc n)"
  unfolding send_base_fields_def
  by (intro frame_bnd frame_client frame_self frame_set_request_id frame_verify frame_ret)

lemma frame_send_path: "frame (send_path dc es)"
proof (induction es)
  case Nil
  show ?case unfolding send_path.simps by (rule frame_ret)
next
  case (Cons elem rest)
  show ?case unfolding send_path.simps
    by (intro frame_bnd frame_client Cons.IH)
qed

lemma frame_send: "frame (send dc)"
proof -
  have 1: "frame (NoParams_send dc)"
    unfolding NoParams_send_def by (intro frame_bnd frame_send_base_fields frame_ret)
  have 2: "frame (Stacktrace_send dc)"
    unfolding Stacktrace_send_def
    by (intro frame_bnd frame_send_base_fields frame_ret frame_self frame_client)
  have 3: "frame (Step_send dc)"
    unfolding Step_send_def
    by (intro frame_bnd frame_send_base_fields frame_ret frame_self frame_client)
  have 4: "frame (Variables_send dc)"
    unfolding Variables_send_def
    by (intro frame_bnd frame_send_base_fields frame_ret frame_self frame_client frame_send_path)
  from 1 2 3 4 show ?thesis
    unfolding frame_def send_def by (auto split: body.splits)
qed

text \<open>
  Claim C9. For a request of any class and any client, whether the send returns or
  raises, the request after the send is the request before it with another identifier:
  the command code, the caller data, the debug level and all attributes of the subclass
  (indices, step type, path, flag, declared size) are as they were.
\<close>

theorem send_changes_request_id_only:
  assumes "send dc (r, c) = (x, r', c')"
  shows "r' = r\<lparr>request_id := request_id r'\<rparr> \<and> cmd_code r' = cmd_code r \<and>
         caller_data r' = caller_data r \<and> debug r' = debug r \<and> body r' = body r"
proof -
  from assms frame_send [of dc] have "r' = r\<lparr>request_id := request_id r'\<rparr>"
    unfolding frame_def by blast
  then show ?thesis
    by (metis request.select_convs request.surjective request.update_convs(3))
qed

theorem send_changes_request_id_only_witness:
  "send (traced counting_client) (example_variables, 7, []) =
     (Inr PNone, example_variables\<lparr>request_id := PInt 7\<rparr>, 8, example_trace) \<and>
   body (example_variables\<lparr>request_id := PInt 7\<rparr>) = body example_variables \<and>
   cmd_code (example_variables\<lparr>request_id := PInt 7\<rparr>) = cmd_code example_variables"
  using send_changes_request_id_only [OF example_variables_send] example_variables_send
  by blast

section \<open>What a send writes\<close>

lemma send_base_fields_traced:
  assumes "send_base_fields (traced dc) n (r, c, tr) = (x, r', c', tr')"
  shows "\<exists>evs. tr' = tr @ evs \<and>
     (case x of
        Inl e \<Rightarrow> \<not> list_all contractual evs
      | Inr k \<Rightarrow> k = 12 \<and>
          (\<exists>rid n1 n2 n3. n1 + n2 + n3 = 12 \<and> r' = r\<lparr>request_id := PInt rid\<rparr> \<and>
             evs = [(Get_next_request_id, Inr rid), (Send_uint (PInt n), Inr n1),
                    (Send_uint (PInt rid), Inr n2),
                    (Send_uint (PCmdCode (cmd_code r)), Inr n3)]))"
  using assms
  by (auto simp: send_base_fields_def bnd_def client_traced verify_num_written_def ret_def self_run set_request_id_run
        raise_def NO_PARAMS_REQUEST_SIZE_def UINT32_SIZE_def
        split: prod.splits sum.splits if_splits)

lemma send_path_traced:
  assumes "send_path (traced dc) es (r, c, tr) = (x, r', c', tr')"
  shows "r' = r \<and> (\<exists>evs. tr' = tr @ evs \<and>
     (case x of
        Inl e \<Rightarrow> \<not> list_all contractual evs
      | Inr _ \<Rightarrow> map fst evs = map Send_str es))"
  using assms
proof (induction es arbitrary: c tr)
  case Nil
  then show ?case by (auto simp: ret_def)
next
  case (Cons elem rest)
  obtain y c1 where s: "send_str dc elem c = (y, c1)" by (cases "send_str dc elem c")
  show ?case
  proof (cases y)
    case (Inl e)
    with Cons.prems s show ?thesis
      by (auto simp: bnd_def client_traced split: sum.splits)
  next
    case (Inr k)
    with Cons.prems s
    have "send_path (traced dc) rest (r, c1, tr @ [(Send_str elem, Inr k)]) = (x, r', c', tr')"
      by (simp add: bnd_def client_traced)
    from Cons.IH [OF this] show ?thesis
      by (auto split: sum.splits)
  qed
qed

lemma send_traced:
  assumes "send (traced dc) (r, c, tr) = (x, r', c', tr')"
  shows "\<exists>evs. tr' = tr @ evs \<and>
     (case x of
        Inl e \<Rightarrow> \<not> list_all contractual evs
      | Inr _ \<Rightarrow>
          (\<exists>rid. r' = r\<lparr>request_id := PInt rid\<rparr> \<and>
             bytes_written (take 4 evs) = 12 \<and>
             map fst evs =
               [Get_next_request_id, Send_uint (PInt (declared_size r)),
                Send_uint (PInt rid), Send_uint (PCmdCode (cmd_code r))] @
               payload_calls (body r)))"
proof (cases "body r")
  case NoParams
  with assms show ?thesis
    by (auto simp: send_def NoParams_send_def bnd_def ret_def self_run declared_size_def bytes_written_def
          split: prod.splits sum.splits dest!: send_base_fields_traced)
next
  case (Stacktrace sz ti)
  with assms show ?thesis
    by (auto simp: send_def Stacktrace_send_def bnd_def ret_def self_run declared_size_def client_traced
          bytes_written_def
          split: prod.splits sum.splits dest!: send_base_fields_traced)
next
  case (Step ti st sz)
  with assms show ?thesis
    by (auto simp: send_def Step_send_def bnd_def ret_def self_run declared_size_def client_traced
          bytes_written_def
          split: prod.splits sum.splits dest!: send_base_fields_traced)
next
  case (Variables ck ti si path sz)
  with assms show ?thesis
    by (auto simp: send_def Variables_send_def bnd_def ret_def self_run declared_size_def client_traced
          GET_CHILD_KEYS_def bytes_written_def
          split: prod.splits sum.splits dest!: send_base_fields_traced send_path_traced)
qed






section \<open>The size of a request for variables\<close>

lemma utf8_char_length: "utf8_char c = Inr bs \<Longrightarrow> length bs = utf8_width c"
  by (auto simp: utf8_char_def utf8_width_def split: if_splits)

lemma encode_utf8_length: "encode_utf8 s = Inr bs \<Longrightarrow> length bs = utf8_byte_length s"
  by (induction s arbitrary: bs)
     (auto simp: utf8_byte_length_def utf8_char_length split: sum.splits)

lemma add_path_sizes_utf8:
  "add_path_sizes p sz = Inr n \<Longrightarrow>
     n = sz + sum_list (map (\<lambda>s. int (utf8_byte_length s) + 1) p)"
proof (induction p arbitrary: sz)
  case Nil
  then show ?case by simp
next
  case (Cons elem rest)
  then obtain bs where e: "encode_utf8 elem = Inr bs"
    and r: "add_path_sizes rest (sz + (int (length bs) + 1)) = Inr n"
    by (auto split: sum.splits)
  from Cons.IH [OF r] encode_utf8_length [OF e] show ?case by simp
qed

text \<open>
  Claim C3, as the specification states it: the size is the size of the header, 12,
  and 9 and the sum over the path. It fails: with the empty path the constructor sets
  25, which is not 12 + 9. The flags byte and the three unsigned integers (thread
  index, stack index, length of the path) are 13 bytes.
\<close>

theorem Variables_size_is_not_header_plus_9:
  "construct example_main (New_Variables (PInt 0) (PInt 0) (Some []) (PBool False) PNone)
     = Inr example_empty \<and>
   request_size (body example_empty) = 25 \<and>
   request_size (body example_empty) \<noteq> NO_PARAMS_REQUEST_SIZE + 9 + sum_list []"
  by (simp add: init_simps example_empty_def)

text \<open>
  Claim C3, amended: for every path, the empty one included, the size the constructor
  sets is the size of the header, 12, and 13, and for each element of the path the
  length of its UTF-8 encoding and 1, whether the element is ASCII or not.
\<close>

theorem Variables_size_formula:
  assumes "construct main (New_Variables ti si vp ck cd) = Inr r"
  shows "NO_PARAMS_REQUEST_SIZE = 12 \<and>
         request_size (body r) =
           NO_PARAMS_REQUEST_SIZE + 13 +
           sum_list (map (\<lambda>s. int (utf8_byte_length s) + 1)
                      (case vp of None \<Rightarrow> [] | Some p \<Rightarrow> p))"
proof -
  from assms have "Variables_init main ti si vp ck cd = Inr r" by simp
  from Variables_init_Inr [OF this] obtain b sz where
    sz: "add_path_sizes (case vp of None \<Rightarrow> [] | Some p \<Rightarrow> p) 25 = Inr sz"
    and r: "r = b\<lparr>body := Variables ck ti si (case vp of None \<Rightarrow> [] | Some p \<Rightarrow> p) sz\<rparr>"
    by blast
  from add_path_sizes_utf8 [OF sz] r show ?thesis
    by (simp add: NO_PARAMS_REQUEST_SIZE_def UINT32_SIZE_def)
qed

theorem Variables_size_formula_witness:
  "construct example_main
     (New_Variables (PInt 3) (PInt 0) (Some example_path) (PBool True) PNone)
     = Inr example_variables \<and>
   map utf8_byte_length example_path = [1, 5, 4] \<and>
   request_size (body example_variables) = 12 + 13 + ((1 + 1) + (5 + 1) + (4 + 1))"
  using Variables_size_formula [OF example_variables_construct] example_variables_construct
  by (simp add: example_path_def utf8_byte_length_def utf8_width_def)

text \<open>The constructor returns whenever the main module has the debug level, the
  indices are not negative, the flag equals a boolean and no element of the path has
  a surrogate.\<close>

lemma encode_utf8_returns:
  "\<forall>c \<in> set s. \<not> (0xD800 \<le> c \<and> c \<le> 0xDFFF) \<Longrightarrow> \<exists>bs. encode_utf8 s = Inr bs"
  by (induction s) (auto simp: utf8_char_def)

lemma add_path_sizes_returns:
  "\<forall>s \<in> set p. \<forall>c \<in> set s. \<not> (0xD800 \<le> c \<and> c \<le> 0xDFFF) \<Longrightarrow> \<exists>n. add_path_sizes p sz = Inr n"
proof (induction p arbitrary: sz)
  case Nil
  then show ?case by simp
next
  case (Cons elem rest)
  from Cons.prems encode_utf8_returns [of elem] obtain bs where "encode_utf8 elem = Inr bs"
    by auto
  moreover from Cons have "\<exists>n. add_path_sizes rest (sz + (int (length bs) + 1)) = Inr n"
    by simp
  ultimately show ?case by simp
qed

lemma Variables_init_returns:
  assumes "has_gDebugLevel main"
    and "py_int ti = Inr i" "0 \<le> i" "py_int si = Inr j" "0 \<le> j"
    and "py_eq_bool ck True \<or> py_eq_bool ck False"
    and "\<forall>s \<in> set (case vp of None \<Rightarrow> [] | Some p \<Rightarrow> p). \<forall>c \<in> set s. \<not> (0xD800 \<le> c \<and> c \<le> 0xDFFF)"
  shows "\<exists>r. construct main (New_Variables ti si vp ck cd) = Inr r"
proof -
  from add_path_sizes_returns [OF assms(7)] obtain n where
    "add_path_sizes (case vp of None \<Rightarrow> [] | Some p \<Rightarrow> p) 25 = Inr n" by blast
  with assms(1-6) show ?thesis
    by (cases ti; cases si)
       (auto simp: Variables_init_def DebuggerRequest_init_def has_gDebugLevel_def index_ok_def
          NO_PARAMS_REQUEST_SIZE_def UINT32_SIZE_def UINT8_SIZE_def
          split: option.splits)
qed

section \<open>The debug level\<close>

text \<open>
  Claim C10. Every constructor reads \<^verbatim>\<open>gMain.gDebugLevel\<close> of the main module. When
  the object or the attribute is missing, the construction of a request of any class
  raises; when it is there, the debug level of the request is the maximum of it and 0,
  and so is not negative. A request without parameters is constructed exactly when it
  is there.
\<close>

theorem constructors_read_gDebugLevel:
  "(\<not> has_gDebugLevel main \<longrightarrow> (\<exists>e. construct main nr = Inl e)) \<and>
   (\<forall>g level r. gMain main = Some g \<and> gDebugLevel g = Some level \<and> construct main nr = Inr r
      \<longrightarrow> debug r = max level 0 \<and> 0 \<le> debug r) \<and>
   (has_gDebugLevel main \<longleftrightarrow> (\<exists>r. construct main New_Stop = Inr r))"
  by (cases nr)
     (auto simp: has_gDebugLevel_def Variables_init_def DebuggerRequest_init_def NoParams_init_def
        Stacktrace_init_def Step_init_def Stop_init_def Threads_init_def Continue_init_def
        ExitChannel_init_def Let_def
        split: option.splits sum.splits pyval.splits bool.splits if_splits)

theorem constructors_read_gDebugLevel_witness:
  "\<not> has_gDebugLevel \<lparr>gMain = None\<rparr> \<and>
   (\<exists>e. construct \<lparr>gMain = None\<rparr> (New_Threads PNone) = Inl e) \<and>
   gMain \<lparr>gMain = Some \<lparr>gDebugLevel = Some (- 3)\<rparr>\<rparr> = Some \<lparr>gDebugLevel = Some (- 3)\<rparr> \<and>
   construct \<lparr>gMain = Some \<lparr>gDebugLevel = Some (- 3)\<rparr>\<rparr> (New_Threads PNone) =
     Inr \<lparr>debug = 0, cmd_code = THREADS, request_id = PNone, caller_data = PNone,
          body = NoParams\<rparr> \<and>
   debug \<lparr>debug = 0, cmd_code = THREADS, request_id = PNone, caller_data = PNone,
          body = NoParams\<rparr> = max (- 3) 0"
  using constructors_read_gDebugLevel [of "\<lparr>gMain = None\<rparr>" "New_Threads PNone"]
    constructors_read_gDebugLevel
      [of "\<lparr>gMain = Some \<lparr>gDebugLevel = Some (- 3)\<rparr>\<rparr>" "New_Threads PNone"]
  by (simp add: has_gDebugLevel_def init_simps)

section \<open>Arguments that are rejected\<close>

text \<open>
  Claim C6. The constructor of a step request raises \<^verbatim>\<open>AssertionError\<close> when the step
  type is not one of the four members of \<^verbatim>\<open>StepType\<close>, whatever the main module and
  the thread index are. A constructor does not have the client: nothing is written.
\<close>

theorem Step_rejects_other_step_types:
  assumes "st \<notin> {PStepType NONE, PStepType LINE, PStepType OUT, PStepType OVER}"
  shows "construct main (New_Step ti st) = Inl AssertionError"
proof (cases st)
  case (PStepType t)
  with assms show ?thesis by (cases t) auto
qed (simp_all add: Step_init_def)

theorem Step_rejects_other_step_types_witness:
  "PInt 1 \<notin> {PStepType NONE, PStepType LINE, PStepType OUT, PStepType OVER} \<and>
   construct example_main (New_Step (PInt 0) (PInt 1)) = Inl AssertionError"
  using Step_rejects_other_step_types [of "PInt 1" example_main "PInt 0"] by simp

lemma Step_accepts_step_types:
  "has_gDebugLevel main \<Longrightarrow> \<exists>r. construct main (New_Step ti (PStepType t)) = Inr r"
  by (auto simp: has_gDebugLevel_def Step_init_def NoParams_init_def DebuggerRequest_init_def
        split: option.splits)

text \<open>
  Claim C5 says that the constructors of a request for variables and of a request for
  a stack trace reject a negative thread index. The first does; the second checks
  nothing: with the thread index \<open>-1\<close> it returns a request of size 16 that holds the
  index.
\<close>

theorem Stacktrace_accepts_negative_thread_index:
  "construct example_main (New_Stacktrace (PInt (- 1)) PNone) =
     Inr \<lparr>debug = 2, cmd_code = STACKTRACE, request_id = PNone, caller_data = PNone,
          body = Stacktrace 16 (PInt (- 1))\<rparr>"
  by (simp add: init_simps)

lemma Variables_rejects_negative_thread_index:
  assumes "py_int ti = Inr i" "i < 0"
  shows "\<exists>e. construct main (New_Variables ti si vp ck cd) = Inl e"
  using assms
  by (cases ti) (auto simp: Variables_init_def index_ok_def split: sum.splits)

section \<open>The order of the writes\<close>

text \<open>
  Claim C7. A request for variables is constructed and sent, and the send returns. Then
  the calls of the client are, in this order: the identifier; the three unsigned
  integers of the header (declared size, identifier, command code), for which the
  client has returned 12 bytes; one byte of flags, which is 1 when the child keys are
  asked for and 0 otherwise; the thread index; the stack index; the number of elements
  of the path (the empty list for \<^verbatim>\<open>None\<close>); each element of the path, as a string,
  in the order of the list.
\<close>

theorem Variables_send_order:
  assumes "construct main (New_Variables ti si vp ck cd) = Inr r"
    and "send (traced dc) (r, c, []) = (Inr y, r', c', tr)"
  shows "\<exists>rid. request_id r' = PInt rid \<and>
     bytes_written (take 4 tr) = 12 \<and>
     map fst tr =
       [Get_next_request_id,
        Send_uint (PInt (request_size (body r))), Send_uint (PInt rid),
        Send_uint (PCmdCode VARIABLES),
        Send_byte (PInt (if py_truth ck then 1 else 0)),
        Send_uint ti,
        Send_uint si,
        Send_uint (PInt (int (length (case vp of None \<Rightarrow> [] | Some p \<Rightarrow> p))))] @
       map Send_str (case vp of None \<Rightarrow> [] | Some p \<Rightarrow> p)"
proof -
  from assms(1) have "Variables_init main ti si vp ck cd = Inr r" by simp
  from Variables_init_Inr [OF this] obtain b sz where
    b: "DebuggerRequest_init main VARIABLES cd = Inr b"
    and r: "r = b\<lparr>body := Variables ck ti si (case vp of None \<Rightarrow> [] | Some p \<Rightarrow> p) sz\<rparr>"
    by blast
  from b have cc: "cmd_code b = VARIABLES"
    by (auto simp: DebuggerRequest_init_def split: option.splits)
  from send_traced [OF assms(2)] obtain rid where
    "r' = r\<lparr>request_id := PInt rid\<rparr>" "bytes_written (take 4 tr) = 12"
    "map fst tr =
       [Get_next_request_id, Send_uint (PInt (declared_size r)),
        Send_uint (PInt rid), Send_uint (PCmdCode (cmd_code r))] @ payload_calls (body r)"
    by auto
  with r cc show ?thesis
    by (simp add: declared_size_def)
qed

theorem Variables_send_order_witness:
  "construct example_main
     (New_Variables (PInt 3) (PInt 0) (Some example_path) (PBool True) PNone)
     = Inr example_variables \<and>
   send (traced counting_client) (example_variables, 7, []) =
     (Inr PNone, example_variables\<lparr>request_id := PInt 7\<rparr>, 8, example_trace) \<and>
   map fst example_trace =
     [Get_next_request_id, Send_uint (PInt 38), Send_uint (PInt 7),
      Send_uint (PCmdCode VARIABLES), Send_byte (PInt 1), Send_uint (PInt 3),
      Send_uint (PInt 0), Send_uint (PInt 3),
      Send_str [0x61], Send_str [0xE9, 0x20AC], Send_str [0x1F600]]"
  using Variables_send_order [OF example_variables_construct example_variables_send]
    example_variables_construct example_variables_send
  by (simp add: example_variables_def example_path_def py_truth_def)

section \<open>The header\<close>

lemma send_after_header_raised:
  assumes "send_base_fields dc (declared_size r) (r, c) = (Inl e, s)"
  shows "send dc (r, c) = (Inl e, s)"
  using assms
  by (cases "body r")
     (simp_all add: send_def NoParams_send_def Stacktrace_send_def Step_send_def
        Variables_send_def bnd_def self_run declared_size_def)

lemma grows_ret: "grows (ret x)"
  by (simp add: grows_def ret_run)

lemma grows_self: "grows self"
  by (simp add: grows_def self_run)

lemma grows_client_uint: "grows (client (send_uint (traced dc) v))"
  by (simp add: grows_def client_traced split: prod.splits)

lemma grows_client_byte: "grows (client (send_byte (traced dc) v))"
  by (simp add: grows_def client_traced split: prod.splits)

lemma grows_client_str: "grows (client (send_str (traced dc) v))"
  by (simp add: grows_def client_traced split: prod.splits)

lemma grows_bnd:
  assumes "grows m" and "\<And>y. grows (k y)"
  shows "grows (bnd m k)"
  unfolding grows_def
proof (intro allI)
  fix r c tr
  from assms(1) obtain x c1 evs1 where m: "m (r, c, tr) = (x, r, c1, tr @ evs1)"
    unfolding grows_def by blast
  show "\<exists>x c' evs. bnd m k (r, c, tr) = (x, r, c', tr @ evs)"
  proof (cases x)
    case (Inl e)
    with m show ?thesis by (auto simp: bnd_def)
  next
    case (Inr y)
    from assms(2) [of y] obtain x2 c2 evs2 where
      "k y (r, c1, tr @ evs1) = (x2, r, c2, (tr @ evs1) @ evs2)"
      unfolding grows_def by blast
    with m Inr show ?thesis by (auto simp: bnd_def)
  qed
qed

lemma grows_send_path: "grows (send_path (traced dc) es)"
proof (induction es)
  case Nil
  show ?case unfolding send_path.simps by (rule grows_ret)
next
  case (Cons elem rest)
  show ?case unfolding send_path.simps
    by (intro grows_bnd grows_client_str Cons.IH)
qed

lemma send_after_header_returned:
  assumes "send_base_fields (traced dc) (declared_size r) (r, c, tr) = (Inr k, r1, c1, tr1)"
  shows "\<exists>x c' evs. send (traced dc) (r, c, tr) = (x, r1, c', tr1 @ evs)"
proof -
  let ?stacktrace = "bnd self (\<lambda>s1.
     bnd (client (send_uint (traced dc) (thread_index (body s1)))) (\<lambda>_. ret PNone))"
  let ?step = "bnd self (\<lambda>s1.
     bnd (client (send_uint (traced dc) (thread_index (body s1)))) (\<lambda>_.
     bnd self (\<lambda>s2.
     bnd (client (send_byte (traced dc) (PInt (StepType_value (step_type (body s2)))))) (\<lambda>_.
     ret PNone))))"
  let ?variables = "bnd self (\<lambda>s1.
     bnd (client (send_byte (traced dc)
            (PInt (if py_truth (get_child_keys (body s1)) then 0 OR GET_CHILD_KEYS else 0)))) (\<lambda>_.
     bnd self (\<lambda>s2.
     bnd (client (send_uint (traced dc) (thread_index (body s2)))) (\<lambda>_.
     bnd self (\<lambda>s3.
     bnd (client (send_uint (traced dc) (stack_index (body s3)))) (\<lambda>_.
     bnd self (\<lambda>s4.
     bnd (client (send_uint (traced dc) (PInt (int (length (variable_path (body s4))))))) (\<lambda>_.
     bnd self (\<lambda>s5.
     bnd (send_path (traced dc) (variable_path (body s5))) (\<lambda>_.
     ret PNone))))))))))"
  have g: "grows ?stacktrace" "grows ?step" "grows ?variables"
    by (intro grows_bnd grows_self grows_ret grows_client_uint grows_client_byte
          grows_send_path)+
  show ?thesis
  proof (cases "body r")
    case NoParams
    with assms show ?thesis
      by (simp add: send_def NoParams_send_def bnd_def ret_run declared_size_def)
  next
    case (Stacktrace sz ti)
    with assms have "send (traced dc) (r, c, tr) = ?stacktrace (r1, c1, tr1)"
      by (simp add: send_def Stacktrace_send_def bnd_def self_run declared_size_def)
    with g(1) show ?thesis unfolding grows_def by metis
  next
    case (Step ti st sz)
    with assms have "send (traced dc) (r, c, tr) = ?step (r1, c1, tr1)"
      by (simp add: send_def Step_send_def bnd_def self_run declared_size_def)
    with g(2) show ?thesis unfolding grows_def by metis
  next
    case (Variables ck ti si path sz)
    with assms have "send (traced dc) (r, c, tr) = ?variables (r1, c1, tr1)"
      by (simp add: send_def Variables_send_def bnd_def self_run declared_size_def)
    with g(3) show ?thesis unfolding grows_def by metis
  qed
qed

text \<open>
  Claim C4. When the identifier source returns \<open>rid\<close> and the three writes return
  \<open>n1\<close>, \<open>n2\<close> and \<open>n3\<close>, the routine that writes the header has asked for one
  identifier, has stored it in the request, and has written the packet size, the
  identifier and the command code, in this order, as unsigned integers. It returns 12
  when the three counts add up to 12 and raises \<^verbatim>\<open>AssertionError\<close> otherwise. Every
  send starts with it: when it raises, the send raises with nothing more written; when
  it returns, the send goes on from there.
\<close>

theorem send_base_fields_header:
  assumes "get_next_request_id dc c = (Inr rid, c1)"
    and "send_uint dc (PInt n) c1 = (Inr n1, c2)"
    and "send_uint dc (PInt rid) c2 = (Inr n2, c3)"
    and "send_uint dc (PCmdCode (cmd_code r)) c3 = (Inr n3, c4)"
  shows "send_base_fields (traced dc) n (r, c, tr) =
     (if n1 + n2 + n3 = 12 then Inr 12 else Inl AssertionError,
      r\<lparr>request_id := PInt rid\<rparr>, c4,
      tr @ [(Get_next_request_id, Inr rid), (Send_uint (PInt n), Inr n1),
            (Send_uint (PInt rid), Inr n2), (Send_uint (PCmdCode (cmd_code r)), Inr n3)]) \<and>
    (n = declared_size r \<longrightarrow>
      (if n1 + n2 + n3 = 12
       then \<exists>x c' evs. send (traced dc) (r, c, tr) =
         (x, r\<lparr>request_id := PInt rid\<rparr>, c',
          (tr @ [(Get_next_request_id, Inr rid), (Send_uint (PInt n), Inr n1),
            (Send_uint (PInt rid), Inr n2), (Send_uint (PCmdCode (cmd_code r)), Inr n3)]) @ evs)
       else send (traced dc) (r, c, tr) =
         (Inl AssertionError, r\<lparr>request_id := PInt rid\<rparr>, c4,
          tr @ [(Get_next_request_id, Inr rid), (Send_uint (PInt n), Inr n1),
            (Send_uint (PInt rid), Inr n2), (Send_uint (PCmdCode (cmd_code r)), Inr n3)])))"
proof -
  let ?hdr = "[(Get_next_request_id, Inr rid), (Send_uint (PInt n), Inr n1),
            (Send_uint (PInt rid), Inr n2), (Send_uint (PCmdCode (cmd_code r)), Inr n3)]"
  have h: "send_base_fields (traced dc) n (r, c, tr) =
     (if n1 + n2 + n3 = 12 then Inr 12 else Inl AssertionError,
      r\<lparr>request_id := PInt rid\<rparr>, c4, tr @ ?hdr)"
    using assms
    by (simp add: send_base_fields_def bnd_def client_traced verify_num_written_def ret_def
        raise_def self_run set_request_id_run NO_PARAMS_REQUEST_SIZE_def UINT32_SIZE_def)
  have "send (traced dc) (r, c, tr) =
      (Inl AssertionError, r\<lparr>request_id := PInt rid\<rparr>, c4, tr @ ?hdr)"
    if "n = declared_size r" "n1 + n2 + n3 \<noteq> 12"
    using h that by (intro send_after_header_raised) simp
  moreover have "\<exists>x c' evs. send (traced dc) (r, c, tr) =
      (x, r\<lparr>request_id := PInt rid\<rparr>, c', (tr @ ?hdr) @ evs)"
    if "n = declared_size r" "n1 + n2 + n3 = 12"
    using h that by (intro send_after_header_returned [where k = 12]) simp
  ultimately show ?thesis using h by simp
qed


theorem send_base_fields_header_witness:
  "get_next_request_id counting_client 7 = (Inr 7, 8) \<and>
   send_uint counting_client (PInt 38) 8 = (Inr 4, 8) \<and>
   send_uint counting_client (PInt 7) 8 = (Inr 4, 8) \<and>
   send_uint counting_client (PCmdCode (cmd_code example_variables)) 8 = (Inr 4, 8) \<and>
   send_base_fields (traced counting_client) 38 (example_variables, 7, []) =
     (Inr 12, example_variables\<lparr>request_id := PInt 7\<rparr>, 8,
      [(Get_next_request_id, Inr 7), (Send_uint (PInt 38), Inr 4),
       (Send_uint (PInt 7), Inr 4), (Send_uint (PCmdCode VARIABLES), Inr 4)]) \<and>
   send_uint short_client (PInt 38) 8 = (Inr 3, 8) \<and>
   send_base_fields (traced short_client) 38 (example_variables, 7, []) =
     (Inl AssertionError, example_variables\<lparr>request_id := PInt 7\<rparr>, 8,
      [(Get_next_request_id, Inr 7), (Send_uint (PInt 38), Inr 3),
       (Send_uint (PInt 7), Inr 3), (Send_uint (PCmdCode VARIABLES), Inr 3)]) \<and>
   send (traced short_client) (example_variables, 7, []) =
     (Inl AssertionError, example_variables\<lparr>request_id := PInt 7\<rparr>, 8,
      [(Get_next_request_id, Inr 7), (Send_uint (PInt 38), Inr 3),
       (Send_uint (PInt 7), Inr 3), (Send_uint (PCmdCode VARIABLES), Inr 3)])"
proof -
  have a: "get_next_request_id counting_client 7 = (Inr 7, 8)"
    "send_uint counting_client (PInt 38) 8 = (Inr 4, 8)"
    "send_uint counting_client (PInt 7) 8 = (Inr 4, 8)"
    "send_uint counting_client (PCmdCode (cmd_code example_variables)) 8 = (Inr 4, 8)"
    by (simp_all add: counting_client_def UINT32_SIZE_def)
  have b: "get_next_request_id short_client 7 = (Inr 7, 8)"
    "send_uint short_client (PInt 38) 8 = (Inr 3, 8)"
    "send_uint short_client (PInt 7) 8 = (Inr 3, 8)"
    "send_uint short_client (PCmdCode (cmd_code example_variables)) 8 = (Inr 3, 8)"
    by (simp_all add: short_client_def counting_client_def)
  have d: "38 = declared_size example_variables" "cmd_code example_variables = VARIABLES"
    by (simp_all add: declared_size_def example_variables_def)
  from send_base_fields_header [OF a, of "[]"] send_base_fields_header [OF b, of "[]"] a b d
  show ?thesis by simp
qed

section \<open>The identifiers of a sequence of sends\<close>

lemma steady_ret: "steady mark (ret x)"
  by (simp add: steady_def ret_run)

lemma steady_raise: "steady mark (raise e)"
  by (simp add: steady_def raise_run)

lemma steady_self: "steady mark self"
  by (simp add: steady_def self_run)

lemma steady_verify: "steady mark (verify_num_written a b)"
  by (simp add: verify_num_written_def steady_ret steady_raise)

lemma steady_client_uint: "id_source_increasing dc mark \<Longrightarrow> steady mark (client (send_uint dc v))"
  by (simp add: steady_def client_run id_source_increasing_def)

lemma steady_client_byte: "id_source_increasing dc mark \<Longrightarrow> steady mark (client (send_byte dc v))"
  by (simp add: steady_def client_run id_source_increasing_def)

lemma steady_client_str: "id_source_increasing dc mark \<Longrightarrow> steady mark (client (send_str dc v))"
  by (simp add: steady_def client_run id_source_increasing_def)

lemma steady_bnd:
  assumes "steady mark m" and "\<And>y. steady mark (k y)"
  shows "steady mark (bnd m k)"
  unfolding steady_def
proof (intro allI impI)
  fix r c x r' c'
  assume "bnd m k (r, c) = (x, r', c')"
  then show "r' = r \<and> mark c \<le> mark c'"
  proof (cases rule: bnd_cases)
    case (raised e)
    with assms(1) show ?thesis unfolding steady_def by blast
  next
    case (returned y s1)
    obtain r1 c1 where s1: "s1 = (r1, c1)" by (cases s1)
    from returned(1) s1 assms(1) have "r1 = r \<and> mark c \<le> mark c1"
      unfolding steady_def by blast
    moreover from returned(2) s1 assms(2) [of y] have "r' = r1 \<and> mark c1 \<le> mark c'"
      unfolding steady_def by blast
    ultimately show ?thesis by simp
  qed
qed

lemma steady_send_path:
  assumes "id_source_increasing dc mark"
  shows "steady mark (send_path dc es)"
proof (induction es)
  case Nil
  show ?case unfolding send_path.simps by (rule steady_ret)
next
  case (Cons elem rest)
  show ?case unfolding send_path.simps
    by (intro steady_bnd steady_client_str assms Cons.IH)
qed

lemmas steady_intros =
  steady_bnd steady_self steady_ret steady_verify steady_client_uint steady_client_byte
  steady_send_path

lemma send_base_fields_fresh:
  assumes inc: "id_source_increasing dc mark"
    and run: "send_base_fields dc n (r, c) = (x, r', c')"
  shows "\<exists>rid. r' = r\<lparr>request_id := PInt rid\<rparr> \<and> mark c < rid \<and> rid \<le> mark c'"
proof -
  let ?rest = "bnd (client (send_uint dc (PInt n))) (\<lambda>n1.
     bnd self (\<lambda>s1.
     bnd (client (send_uint dc (request_id s1))) (\<lambda>n2.
     bnd self (\<lambda>s2.
     bnd (client (send_uint dc (PCmdCode (cmd_code s2)))) (\<lambda>n3.
     bnd (verify_num_written NO_PARAMS_REQUEST_SIZE (0 + n1 + n2 + n3)) (\<lambda>_.
     ret (0 + n1 + n2 + n3)))))))"
  have st: "steady mark ?rest"
    by (intro steady_intros inc)
  obtain y c1 where g0: "get_next_request_id dc c = (y, c1)"
    by (cases "get_next_request_id dc c")
  from inc have "case get_next_request_id dc c of
      (Inl _, _) \<Rightarrow> False | (Inr n, c') \<Rightarrow> mark c < n \<and> n \<le> mark c'"
    by (simp add: id_source_increasing_def)
  with g0 obtain rid where g: "get_next_request_id dc c = (Inr rid, c1)"
    and m: "mark c < rid" "rid \<le> mark c1"
    by (cases y) auto
  from run g have "?rest (r\<lparr>request_id := PInt rid\<rparr>, c1) = (x, r', c')"
    by (simp add: send_base_fields_def bnd_def client_def set_request_id_run)
  with st have "r' = r\<lparr>request_id := PInt rid\<rparr> \<and> mark c1 \<le> mark c'"
    unfolding steady_def by blast
  with m show ?thesis by auto
qed

lemma send_fresh:
  assumes inc: "id_source_increasing dc mark"
    and run: "send dc (r, c) = (x, r', c')"
  shows "\<exists>rid. r' = r\<lparr>request_id := PInt rid\<rparr> \<and> mark c < rid \<and> rid \<le> mark c'"
proof -
  let ?stacktrace = "bnd self (\<lambda>s1.
     bnd (client (send_uint dc (thread_index (body s1)))) (\<lambda>_. ret PNone))"
  let ?step = "bnd self (\<lambda>s1.
     bnd (client (send_uint dc (thread_index (body s1)))) (\<lambda>_.
     bnd self (\<lambda>s2.
     bnd (client (send_byte dc (PInt (StepType_value (step_type (body s2)))))) (\<lambda>_.
     ret PNone))))"
  let ?variables = "bnd self (\<lambda>s1.
     bnd (client (send_byte dc
            (PInt (if py_truth (get_child_keys (body s1)) then 0 OR GET_CHILD_KEYS else 0)))) (\<lambda>_.
     bnd self (\<lambda>s2.
     bnd (client (send_uint dc (thread_index (body s2)))) (\<lambda>_.
     bnd self (\<lambda>s3.
     bnd (client (send_uint dc (stack_index (body s3)))) (\<lambda>_.
     bnd self (\<lambda>s4.
     bnd (client (send_uint dc (PInt (int (length (variable_path (body s4))))))) (\<lambda>_.
     bnd self (\<lambda>s5.
     bnd (send_path dc (variable_path (body s5))) (\<lambda>_.
     ret PNone))))))))))"
  let ?noparams = "\<lambda>k :: int. (ret (PInt k) :: (pyval, 'a) action)"
  have g: "steady mark ?stacktrace" "steady mark ?step" "steady mark ?variables"
    "steady mark (?noparams k)" for k
    by (intro steady_intros inc)+
  obtain y r1 c1 where h: "send_base_fields dc (declared_size r) (r, c) = (y, r1, c1)"
    by (cases "send_base_fields dc (declared_size r) (r, c)") auto
  from send_base_fields_fresh [OF inc h] obtain rid where
    rid: "r1 = r\<lparr>request_id := PInt rid\<rparr>" "mark c < rid" "rid \<le> mark c1"
    by blast
  show ?thesis
  proof (cases y)
    case (Inl e)
    with h run send_after_header_raised [of dc r c e "(r1, c1)"] rid show ?thesis
      by auto
  next
    case (Inr k)
    have "\<exists>m :: (pyval, 'a) action. steady mark m \<and> send dc (r, c) = m (r1, c1)"
    proof (cases "body r")
      case NoParams
      with h Inr have "send dc (r, c) = ?noparams k (r1, c1)"
        by (simp add: send_def NoParams_send_def bnd_def declared_size_def)
      with g(4) show ?thesis by blast
    next
      case (Stacktrace sz ti)
      with h Inr have "send dc (r, c) = ?stacktrace (r1, c1)"
        by (simp add: send_def Stacktrace_send_def bnd_def self_run declared_size_def)
      with g(1) show ?thesis by blast
    next
      case (Step ti st sz)
      with h Inr have "send dc (r, c) = ?step (r1, c1)"
        by (simp add: send_def Step_send_def bnd_def self_run declared_size_def)
      with g(2) show ?thesis by blast
    next
      case (Variables ck ti si path sz)
      with h Inr have "send dc (r, c) = ?variables (r1, c1)"
        by (simp add: send_def Variables_send_def bnd_def self_run declared_size_def)
      with g(3) show ?thesis by blast
    qed
    then obtain m :: "(pyval, 'a) action" where "steady mark m" "send dc (r, c) = m (r1, c1)"
      by blast
    with run have "m (r1, c1) = (x, r', c')" by simp
    with \<open>steady mark m\<close> have "r' = r1 \<and> mark c1 \<le> mark c'"
      unfolding steady_def by blast
    with rid show ?thesis by auto
  qed
qed

lemma send_all_fresh:
  assumes inc: "id_source_increasing dc mark"
  shows "send_all dc rs c = (rs', c') \<Longrightarrow>
    \<exists>ids. map request_id rs' = map PInt ids \<and> length ids = length rs \<and>
      sorted_wrt (<) ids \<and> (\<forall>i \<in> set ids. mark c < i \<and> i \<le> mark c') \<and> mark c \<le> mark c'"
proof (induction rs arbitrary: c rs' c')
  case Nil
  then show ?case by simp
next
  case (Cons r rs)
  obtain x r1 c1 where s: "send dc (r, c) = (x, r1, c1)"
    by (cases "send dc (r, c)") auto
  obtain rs1 c2 where a: "send_all dc rs c1 = (rs1, c2)" by (cases "send_all dc rs c1")
  from Cons.prems s a have res: "rs' = r1 # rs1" "c' = c2" by simp_all
  from send_fresh [OF inc s] obtain rid where
    rid: "request_id r1 = PInt rid" "mark c < rid" "rid \<le> mark c1" by auto
  from Cons.IH [OF a] obtain ids where ids: "map request_id rs1 = map PInt ids"
    "length ids = length rs" "sorted_wrt (<) ids"
    "\<forall>i \<in> set ids. mark c1 < i \<and> i \<le> mark c2" "mark c1 \<le> mark c2"
    by blast
  have "map request_id rs' = map PInt (rid # ids) \<and> length (rid # ids) = length (r # rs) \<and>
      sorted_wrt (<) (rid # ids) \<and> (\<forall>i \<in> set (rid # ids). mark c < i \<and> i \<le> mark c') \<and>
      mark c \<le> mark c'"
    using res rid ids by force
  then show ?case by blast
qed

text \<open>
  Claim C8. With a client whose identifier source returns a fresh, increasing value on
  each call, the requests of any list, sent one after the other, all have an
  identifier after their send, and these identifiers are pairwise distinct and do not
  decrease.
\<close>

theorem request_ids_distinct_and_sorted:
  assumes "id_source_increasing dc mark"
    and "send_all dc rs c = (rs', c')"
  shows "\<exists>ids. map request_id rs' = map PInt ids \<and> length ids = length rs \<and>
           distinct ids \<and> sorted ids"
proof -
  from send_all_fresh [OF assms] obtain ids where
    "map request_id rs' = map PInt ids" "length ids = length rs" "sorted_wrt (<) ids"
    by blast
  then show ?thesis
    using strict_sorted_iff [of ids] by auto
qed


lemma counting_client_increasing: "id_source_increasing counting_client (\<lambda>n. n - 1)"
  by (simp add: id_source_increasing_def counting_client_def)

lemma example_stacktraces_send_all:
  "send_all counting_client example_stacktraces 7 =
     ([\<lparr>debug = 2, cmd_code = STACKTRACE, request_id = PInt 7, caller_data = PNone,
        body = Stacktrace 16 (PInt 0)\<rparr>,
       \<lparr>debug = 2, cmd_code = STACKTRACE, request_id = PInt 8, caller_data = PNone,
        body = Stacktrace 16 (PInt 1)\<rparr>], 9)"
  by (simp add: run_simps example_stacktraces_def)

theorem request_ids_distinct_and_sorted_witness:
  "id_source_increasing counting_client (\<lambda>n. n - 1) \<and>
   send_all counting_client example_stacktraces 7 =
     ([\<lparr>debug = 2, cmd_code = STACKTRACE, request_id = PInt 7, caller_data = PNone,
        body = Stacktrace 16 (PInt 0)\<rparr>,
       \<lparr>debug = 2, cmd_code = STACKTRACE, request_id = PInt 8, caller_data = PNone,
        body = Stacktrace 16 (PInt 1)\<rparr>], 9) \<and>
   (\<exists>ids. [PInt 7, PInt 8] = map PInt ids \<and> length ids = length example_stacktraces \<and>
      distinct ids \<and> sorted ids)"
  using request_ids_distinct_and_sorted
    [OF counting_client_increasing example_stacktraces_send_all]
    counting_client_increasing example_stacktraces_send_all
  by simp

section \<open>The scenarios of the specification\<close>

text \<open>
  The end-to-end scenarios, run through the counting client from the identifier 1: a
  stop request (size 12, header only); a step over of thread 2 (size 17, the step byte
  is 3); a stack trace; a request for variables with no path (size 25, flags 0, count
  0) and with the path of the two letters a and b and the child keys (size 29, flags
  1, count 2). A path element with a surrogate and arguments that fail an assertion
  are rejected by the constructor.
\<close>

lemma scenario_stop:
  "construct example_main New_Stop =
     Inr \<lparr>debug = 2, cmd_code = STOP, request_id = PNone, caller_data = PNone,
          body = NoParams\<rparr> \<and>
   send (traced counting_client)
     (\<lparr>debug = 2, cmd_code = STOP, request_id = PNone, caller_data = PNone,
       body = NoParams\<rparr>, 1, []) =
     (Inr (PInt 12),
      \<lparr>debug = 2, cmd_code = STOP, request_id = PInt 1, caller_data = PNone, body = NoParams\<rparr>,
      2,
      [(Get_next_request_id, Inr 1), (Send_uint (PInt 12), Inr 4), (Send_uint (PInt 1), Inr 4),
       (Send_uint (PCmdCode STOP), Inr 4)])"
  by (simp add: init_simps run_simps)

lemma scenario_step:
  "construct example_main (New_Step (PInt 2) (PStepType OVER)) =
     Inr \<lparr>debug = 2, cmd_code = STEP, request_id = PNone, caller_data = PNone,
          body = Step (PInt 2) OVER 17\<rparr> \<and>
   send (traced counting_client)
     (\<lparr>debug = 2, cmd_code = STEP, request_id = PNone, caller_data = PNone,
       body = Step (PInt 2) OVER 17\<rparr>, 1, []) =
     (Inr PNone,
      \<lparr>debug = 2, cmd_code = STEP, request_id = PInt 1, caller_data = PNone,
       body = Step (PInt 2) OVER 17\<rparr>,
      2,
      [(Get_next_request_id, Inr 1), (Send_uint (PInt 17), Inr 4), (Send_uint (PInt 1), Inr 4),
       (Send_uint (PCmdCode STEP), Inr 4), (Send_uint (PInt 2), Inr 4),
       (Send_byte (PInt 3), Inr 1)])"
  by (simp add: init_simps run_simps)

lemma scenario_stacktrace:
  "construct example_main (New_Stacktrace (PInt 5) (PInt 99)) =
     Inr \<lparr>debug = 2, cmd_code = STACKTRACE, request_id = PNone, caller_data = PInt 99,
          body = Stacktrace 16 (PInt 5)\<rparr> \<and>
   send (traced counting_client)
     (\<lparr>debug = 2, cmd_code = STACKTRACE, request_id = PNone, caller_data = PInt 99,
       body = Stacktrace 16 (PInt 5)\<rparr>, 1, []) =
     (Inr PNone,
      \<lparr>debug = 2, cmd_code = STACKTRACE, request_id = PInt 1, caller_data = PInt 99,
       body = Stacktrace 16 (PInt 5)\<rparr>,
      2,
      [(Get_next_request_id, Inr 1), (Send_uint (PInt 16), Inr 4), (Send_uint (PInt 1), Inr 4),
       (Send_uint (PCmdCode STACKTRACE), Inr 4), (Send_uint (PInt 5), Inr 4)])"
  by (simp add: init_simps run_simps)

lemma scenario_variables_empty:
  "construct example_main (New_Variables (PInt 0) (PInt 0) (Some []) (PBool False) PNone) =
     Inr example_empty \<and>
   construct example_main (New_Variables (PInt 0) (PInt 0) None (PBool False) PNone) =
     Inr example_empty \<and>
   send (traced counting_client) (example_empty, 1, []) =
     (Inr PNone, example_empty\<lparr>request_id := PInt 1\<rparr>, 2,
      [(Get_next_request_id, Inr 1), (Send_uint (PInt 25), Inr 4), (Send_uint (PInt 1), Inr 4),
       (Send_uint (PCmdCode VARIABLES), Inr 4), (Send_byte (PInt 0), Inr 1),
       (Send_uint (PInt 0), Inr 4), (Send_uint (PInt 0), Inr 4), (Send_uint (PInt 0), Inr 4)])"
  by (simp add: init_simps run_simps example_empty_def)

lemma scenario_variables_a_b:
  "construct example_main
     (New_Variables (PInt 0) (PInt 0) (Some [[0x61], [0x62]]) (PBool True) PNone) =
     Inr \<lparr>debug = 2, cmd_code = VARIABLES, request_id = PNone, caller_data = PNone,
          body = Variables (PBool True) (PInt 0) (PInt 0) [[0x61], [0x62]] 29\<rparr> \<and>
   send (traced counting_client)
     (\<lparr>debug = 2, cmd_code = VARIABLES, request_id = PNone, caller_data = PNone,
       body = Variables (PBool True) (PInt 0) (PInt 0) [[0x61], [0x62]] 29\<rparr>, 1, []) =
     (Inr PNone,
      \<lparr>debug = 2, cmd_code = VARIABLES, request_id = PInt 1, caller_data = PNone,
       body = Variables (PBool True) (PInt 0) (PInt 0) [[0x61], [0x62]] 29\<rparr>, 2,
      [(Get_next_request_id, Inr 1), (Send_uint (PInt 29), Inr 4), (Send_uint (PInt 1), Inr 4),
       (Send_uint (PCmdCode VARIABLES), Inr 4), (Send_byte (PInt 1), Inr 1),
       (Send_uint (PInt 0), Inr 4), (Send_uint (PInt 0), Inr 4), (Send_uint (PInt 2), Inr 4),
       (Send_str [0x61], Inr 2), (Send_str [0x62], Inr 2)])"
  by (simp add: init_simps run_simps)

lemma surrogate_rejected:
  "construct example_main
     (New_Variables (PInt 0) (PInt 0) (Some [[0xD800]]) (PBool True) PNone) =
     Inl UnicodeEncodeError"
  by (simp add: init_simps)

lemma Variables_rejects_examples:
  "construct example_main (New_Variables PNone (PInt 0) None (PBool True) PNone)
     = Inl AssertionError"
  "construct example_main (New_Variables (PInt (- 1)) (PInt 0) None (PBool True) PNone)
     = Inl AssertionError"
  "construct example_main (New_Variables (PInt 0) (PInt (- 1)) None (PBool True) PNone)
     = Inl AssertionError"
  "construct example_main (New_Variables (PInt 0) (PInt 0) None PNone PNone)
     = Inl AssertionError"
  "construct example_main (New_Variables (PInt 0) (PInt 0) None (PInt 2) PNone)
     = Inl AssertionError"
  by (simp_all add: init_simps)

end
